theory Spec2Isabelle
  imports Main
begin

section \<open>The LXD backend of the virtual-machine controller\<close>

text \<open>
  A shallow embedding of \<^verbatim>\<open>src/platform/backends/lxd/lxd_virtual_machine.cpp\<close> and
  \<^verbatim>\<open>src/platform/backends/lxd/lxd_mount_handler.cpp\<close>. Member functions take the
  object's fields as a record and return the updated record; what a function does to
  the outside (requests sent to the daemon, log lines, states handed to the status
  monitor) is collected in a second record, the world. A thrown exception or a failed
  assertion is the \<open>Inl\<close> branch of the result.
\<close>

subsection \<open>JSON values as the code reads them\<close>

text \<open>
  The replies of the daemon are \<^verbatim>\<open>QJsonObject\<close>s. An object is a finite map from keys
  to values; looking up a missing key gives the undefined value. Numbers are kept to
  the whole numbers, which is what status codes are.
\<close>

datatype json =
    Undefined
  | Null
  | Bool bool
  | Number int
  | String string
  | Array "json list"
  | Object "string \<Rightarrow> json option"

type_synonym jobject = "string \<Rightarrow> json option"

text \<open>\<^verbatim>\<open>QJsonObject::operator[]\<close> on a constant object: the value, or undefined.\<close>

definition at :: "jobject \<Rightarrow> string \<Rightarrow> json" where
  "at obj key = (case obj key of None \<Rightarrow> Undefined | Some v \<Rightarrow> v)"

text \<open>\<^verbatim>\<open>QJsonValue::toObject()\<close>: the object, or the empty object for any other value.\<close>

fun toObject :: "json \<Rightarrow> jobject" where
  "toObject (Object obj) = obj"
| "toObject _ = Map.empty"

text \<open>\<^verbatim>\<open>QJsonValue::toArray()\<close>: the array, or the empty array for any other value.\<close>

fun toArray :: "json \<Rightarrow> json list" where
  "toArray (Array xs) = xs"
| "toArray _ = []"

text \<open>\<^verbatim>\<open>QJsonValue::toString()\<close>: the string, or the empty string for any other value.\<close>

fun toString :: "json \<Rightarrow> string" where
  "toString (String s) = s"
| "toString _ = []"

text \<open>
  \<^verbatim>\<open>QJsonValue::toInt(defaultValue)\<close>: the number when the value is a whole number that
  fits a 32-bit \<^verbatim>\<open>int\<close>, the default otherwise.
\<close>

fun toInt :: "json \<Rightarrow> int \<Rightarrow> int" where
  "toInt (Number n) d = (if - 2147483648 \<le> n \<and> n \<le> 2147483647 then n else d)"
| "toInt _ d = d"

text \<open>\<^verbatim>\<open>QString::number\<close> and the \<^verbatim>\<open>{}\<close> of \<^verbatim>\<open>fmt::format\<close> on an integer: decimal digits.\<close>

definition digit :: "nat \<Rightarrow> char" where
  "digit n = ''0123456789'' ! (n mod 10)"

function decimal :: "nat \<Rightarrow> string" where
  "decimal n = (if n < 10 then [digit n] else decimal (n div 10) @ [digit n])"
  by pat_completeness auto
termination
  by (relation "measure id") auto

declare decimal.simps [simp del]

definition number :: "int \<Rightarrow> string" where
  "number i = (if i < 0 then CHR ''-'' # decimal (nat (- i)) else decimal (nat i))"

subsection \<open>States, failures, and the world outside the object\<close>

text \<open>
  Modelled from the spec: the enumeration \<^verbatim>\<open>VirtualMachine::State\<close>, declared in a header
  that is not among the sources. Its values are those of the specification's data
  model, and \<open>off\<close>, which the mount handler names.
\<close>

datatype State =
  off | stopped | starting | running | delayed_shutdown | suspending | suspended | unknown

text \<open>
  What ends a call early: the exceptions the code names, and a failed \<^verbatim>\<open>assert\<close>, which
  aborts the process and which no handler catches. An \<^verbatim>\<open>assert\<close> checks only in a build
  without \<^verbatim>\<open>NDEBUG\<close>; the functions that assert take the build as a parameter.
\<close>

datatype failure =
    LocalSocketConnectionException string
  | LXDNotFoundException
  | runtime_error string
  | assertion_failed string

datatype level = error | warning | info | debug | trace

record request =
  req_method :: string
  req_url :: string
  req_data :: "jobject option"
  req_timeout :: "int option"

text \<open>
  The world: the state of the daemon and of the transport to it (of any type), the
  requests the code has issued with \<^verbatim>\<open>lxd_request\<close>, oldest first, the lines given to
  \<^verbatim>\<open>mpl::log\<close>, and the state last handed to the status monitor for each instance name.
\<close>

record 'd world =
  daemon :: 'd
  sent :: "request list"
  logged :: "(level \<times> string \<times> string) list"
  persisted :: "string \<Rightarrow> State option"

text \<open>
  Modelled from the spec: the remote operation protocol of \<^verbatim>\<open>lxd_request.cpp\<close>, which is
  not among the sources. A request is one synchronous call that gives the parsed reply
  or fails (the transport cannot reach the daemon, the resource does not exist, ...);
  waiting for an operation gives its final reply or fails. How the daemon answers is a
  parameter: every theorem below holds for every daemon unless it names one.
\<close>

record 'd remote =
  answer :: "request \<Rightarrow> 'd \<Rightarrow> (failure + jobject) \<times> 'd"
  await :: "string \<Rightarrow> jobject \<Rightarrow> int \<Rightarrow> 'd \<Rightarrow> (failure + jobject) \<times> 'd"

definition lxd_request ::
  "'d remote \<Rightarrow> string \<Rightarrow> string \<Rightarrow> jobject option \<Rightarrow> int option \<Rightarrow> 'd world
    \<Rightarrow> (failure + jobject) \<times> 'd world" where
  "lxd_request R method url data tmo w =
     (let rq = \<lparr>req_method = method, req_url = url, req_data = data, req_timeout = tmo\<rparr>;
          (reply, d) = answer R rq (daemon w)
      in (reply, w\<lparr>daemon := d, sent := sent w @ [rq]\<rparr>))"

definition lxd_wait ::
  "'d remote \<Rightarrow> string \<Rightarrow> jobject \<Rightarrow> int \<Rightarrow> 'd world \<Rightarrow> (failure + jobject) \<times> 'd world" where
  "lxd_wait R base task tmo w =
     (let (reply, d) = await R base task tmo (daemon w) in (reply, w\<lparr>daemon := d\<rparr>))"

definition log_line :: "level \<Rightarrow> string \<Rightarrow> string \<Rightarrow> 'd world \<Rightarrow> 'd world" where
  "log_line lvl category message w = w\<lparr>logged := logged w @ [(lvl, category, message)]\<rparr>"

subsection \<open>From the daemon's status code to a state\<close>

definition instance_state_for ::
  "'d remote \<Rightarrow> string \<Rightarrow> string \<Rightarrow> 'd world \<Rightarrow> (failure + State) \<times> 'd world" where
  "instance_state_for R name url w =
     (case lxd_request R ''GET'' url None None w of
        (Inl e, w1) \<Rightarrow> (Inl e, w1)
      | (Inr json_reply, w1) \<Rightarrow>
          (let metadata = toObject (at json_reply ''metadata'');
               w2 = log_line trace name
                      (''Got LXD container state: '' @ name @ '' is ''
                         @ toString (at metadata ''status'')) w1;
               code = toInt (at metadata ''status_code'') (- 1)
           in if code = 101 \<or> code = 103 \<or> code = 107 \<or> code = 111 then (Inr running, w2)
              else if code = 102 then (Inr stopped, w2)
              else if code = 106 then (Inr starting, w2)
              else if code = 109 then (Inr suspending, w2)
              else if code = 110 then (Inr suspended, w2)
              else if code = 104 \<or> code = 108 \<or> code = 112 then (Inr unknown, w2)
              else (Inr unknown,
                    log_line error name
                      (''Got unexpected LXD state: '' @ toString (at metadata ''status'')
                         @ '' ('' @ number (toInt (at metadata ''status_code'') 0) @ '')'') w2)))"

subsection \<open>The lease table\<close>

text \<open>
  The scan of \<^verbatim>\<open>get_ip_for\<close> over the leases. The constructor of \<^verbatim>\<open>mp::IPAddress\<close> is not
  among the sources: it is the parameter \<open>IPAddress\<close>, which gives \<open>None\<close> where the
  constructor throws \<^verbatim>\<open>std::invalid_argument\<close>.
\<close>

fun scan_leases :: "(string \<Rightarrow> 'ip option) \<Rightarrow> string \<Rightarrow> json list \<Rightarrow> 'ip option" where
  "scan_leases IPAddress mac [] = None"
| "scan_leases IPAddress mac (lease # leases) =
     (if toString (at (toObject lease) ''hwaddr'') = mac
      then (case IPAddress (toString (at (toObject lease) ''address'')) of
              Some ip \<Rightarrow> Some ip
            | None \<Rightarrow> scan_leases IPAddress mac leases)
      else scan_leases IPAddress mac leases)"

definition get_ip_for ::
  "(string \<Rightarrow> 'ip option) \<Rightarrow> 'd remote \<Rightarrow> string \<Rightarrow> string \<Rightarrow> 'd world
    \<Rightarrow> (failure + 'ip option) \<times> 'd world" where
  "get_ip_for IPAddress R mac url w =
     (case lxd_request R ''GET'' url None None w of
        (Inl e, w1) \<Rightarrow> (Inl e, w1)
      | (Inr json_leases, w1) \<Rightarrow>
          (Inr (scan_leases IPAddress mac (toArray (at json_leases ''metadata''))), w1))"

subsection \<open>The virtual machine\<close>

text \<open>
  The fields of \<^verbatim>\<open>LXDVirtualMachine\<close> that the functions below read or write. The field
  \<open>manager\<close> says that the pointer to the network access manager is not null.
\<close>

record LXDVirtualMachine =
  vm_name :: string
  name :: string
  state :: State
  port :: "int option"
  shutdown_while_starting :: bool
  update_shutdown_status :: bool
  manager :: bool
  base_url :: string
  bridge_name :: string
  mac_addr :: string
  storage_pool :: string

text \<open>
  The URLs are built with \<^verbatim>\<open>QString::arg\<close>; the base URL and the name are taken to hold no
  place marker of their own, so that the result is the concatenation.
\<close>

definition url :: "LXDVirtualMachine \<Rightarrow> string" where
  "url vm = base_url vm @ ''/virtual-machines/'' @ name vm"

definition state_url :: "LXDVirtualMachine \<Rightarrow> string" where
  "state_url vm = url vm @ ''/state''"

definition network_leases_url :: "LXDVirtualMachine \<Rightarrow> string" where
  "network_leases_url vm = base_url vm @ ''/networks/'' @ bridge_name vm @ ''/leases''"

text \<open>
  \<^verbatim>\<open>current_state\<close>: only a \<^verbatim>\<open>LocalSocketConnectionException\<close> is caught; any other
  failure of the query leaves the object as it was and goes on to the caller.
\<close>

definition current_state ::
  "'d remote \<Rightarrow> LXDVirtualMachine \<Rightarrow> 'd world
    \<Rightarrow> (failure + State) \<times> LXDVirtualMachine \<times> 'd world" where
  "current_state R vm w =
     (case instance_state_for R (name vm) (state_url vm) w of
        (Inr present_state, w1) \<Rightarrow>
          if (state vm = delayed_shutdown \<or> state vm = starting) \<and> present_state = running
          then (Inr (state vm), vm, w1)
          else (Inr present_state, vm\<lparr>state := present_state\<rparr>, w1)
      | (Inl (LocalSocketConnectionException what), w1) \<Rightarrow>
          (Inr unknown, vm\<lparr>state := unknown\<rparr>, log_line warning (vm_name vm) what w1)
      | (Inl e, w1) \<Rightarrow> (Inl e, vm, w1))"

definition ssh_port :: "LXDVirtualMachine \<Rightarrow> int" where
  "ssh_port vm = 22"

text \<open>
  Modelled from the spec: the status monitor, whose \<^verbatim>\<open>persist_state_for\<close> is the sink
  \<open>persistState(name, State)\<close> of the specification; the world keeps the state last
  handed over for each name.
\<close>

definition update_state :: "LXDVirtualMachine \<Rightarrow> 'd world \<Rightarrow> 'd world" where
  "update_state vm w = w\<lparr>persisted := (persisted w)(vm_name vm \<mapsto> state vm)\<rparr>"

definition request_state ::
  "'d remote \<Rightarrow> LXDVirtualMachine \<Rightarrow> string \<Rightarrow> 'd world \<Rightarrow> (failure + unit) \<times> 'd world" where
  "request_state R vm new_state w =
     (case lxd_request R ''PUT'' (state_url vm) (Some [''action'' \<mapsto> String new_state])
             (Some 5000) w of
        (Inl e, w1) \<Rightarrow> (Inl e, w1)
      | (Inr state_task, w1) \<Rightarrow>
          (case lxd_wait R (base_url vm) state_task 60000 w1 of
             (Inl LXDNotFoundException, w2) \<Rightarrow> (Inr (), w2)
           | (Inl e, w2) \<Rightarrow> (Inl e, w2)
           | (Inr task_reply, w2) \<Rightarrow> (Inr (), w2)))"

text \<open>
  \<^verbatim>\<open>stop\<close> takes the state mutex and may wait on the condition variable
  \<^verbatim>\<open>state_wait\<close> until \<^verbatim>\<open>shutdown_while_starting\<close> holds. In this sequential model the
  mutex is free. Where the wait finds the flag set it goes on at once; where it does
  not, the call is parked: the result is \<open>Waiting\<close>, and what the call does once it has
  been woken with the flag set is \<open>stop_after_wait\<close>.
\<close>

datatype progress = Returned | Waiting

definition stop_after_wait ::
  "LXDVirtualMachine \<Rightarrow> 'd world \<Rightarrow> (failure + progress) \<times> LXDVirtualMachine \<times> 'd world" where
  "stop_after_wait vm w =
     (let vm1 = vm\<lparr>port := None\<rparr>
      in (Inr Returned, vm1, if update_shutdown_status vm1 then update_state vm1 w else w))"

definition stop ::
  "'d remote \<Rightarrow> LXDVirtualMachine \<Rightarrow> 'd world
    \<Rightarrow> (failure + progress) \<times> LXDVirtualMachine \<times> 'd world" where
  "stop R vm w =
     (case current_state R vm w of
        (Inl e, vm1, w1) \<Rightarrow> (Inl e, vm1, w1)
      | (Inr present_state, vm1, w1) \<Rightarrow>
          if present_state = stopped
          then (Inr Returned, vm1,
                log_line debug (vm_name vm1)
                  ''Ignoring stop request since instance is already stopped'' w1)
          else if present_state = suspended
          then (Inr Returned, vm1,
                log_line info (vm_name vm1) ''Ignoring shutdown issued while suspended'' w1)
          else (case request_state R vm1 ''stop'' w1 of
                  (Inl e, w2) \<Rightarrow> (Inl e, vm1, w2)
                | (Inr u, w2) \<Rightarrow>
                    (let vm2 = vm1\<lparr>state := stopped\<rparr>
                     in if present_state = starting \<and> \<not> shutdown_while_starting vm2
                        then (Inr Waiting, vm2, w2)
                        else stop_after_wait vm2 w2)))"

subsection \<open>Resizing\<close>

text \<open>\<^verbatim>\<open>MemorySize\<close>, of which the code reads \<^verbatim>\<open>in_bytes()\<close> only.\<close>

record MemorySize =
  in_bytes :: int

text \<open>
  The three functions begin with two \<^verbatim>\<open>assert\<close>s. The parameter \<open>NDEBUG\<close> says that the
  build defines the macro of that name: then an \<^verbatim>\<open>assert\<close> is no code at all and the
  function goes straight to the request; otherwise a false condition aborts. (What a
  request through a null manager does is the business of \<^verbatim>\<open>lxd_request\<close> and is not
  modelled: the theorems ask for the manager wherever a request is issued.)
\<close>

definition update_cpus ::
  "bool \<Rightarrow> 'd remote \<Rightarrow> LXDVirtualMachine \<Rightarrow> int \<Rightarrow> 'd world \<Rightarrow> (failure + unit) \<times> 'd world" where
  "update_cpus NDEBUG R vm num_cores w =
     (if \<not> NDEBUG \<and> \<not> num_cores > 0 then (Inl (assertion_failed ''num_cores > 0''), w)
      else if \<not> NDEBUG \<and> \<not> manager vm then (Inl (assertion_failed ''manager''), w)
      else (let patch_json = [''config'' \<mapsto> Object [''limits.cpu'' \<mapsto> String (number num_cores)]]
            in case lxd_request R ''PATCH'' (url vm) (Some patch_json) None w of
                 (Inl e, w1) \<Rightarrow> (Inl e, w1)
               | (Inr reply, w1) \<Rightarrow> (Inr (), w1)))"

definition resize_memory ::
  "bool \<Rightarrow> 'd remote \<Rightarrow> LXDVirtualMachine \<Rightarrow> MemorySize \<Rightarrow> 'd world
    \<Rightarrow> (failure + unit) \<times> 'd world" where
  "resize_memory NDEBUG R vm new_size w =
     (if \<not> NDEBUG \<and> \<not> in_bytes new_size > 0
      then (Inl (assertion_failed ''new_size.in_bytes() > 0''), w)
      else if \<not> NDEBUG \<and> \<not> manager vm then (Inl (assertion_failed ''manager''), w)
      else (let patch_json =
                  [''config'' \<mapsto> Object [''limits.memory'' \<mapsto> String (number (in_bytes new_size))]]
            in case lxd_request R ''PATCH'' (url vm) (Some patch_json) None w of
                 (Inl e, w1) \<Rightarrow> (Inl e, w1)
               | (Inr reply, w1) \<Rightarrow> (Inr (), w1)))"

definition resize_disk ::
  "bool \<Rightarrow> 'd remote \<Rightarrow> LXDVirtualMachine \<Rightarrow> MemorySize \<Rightarrow> 'd world
    \<Rightarrow> (failure + unit) \<times> 'd world" where
  "resize_disk NDEBUG R vm new_size w =
     (if \<not> NDEBUG \<and> \<not> in_bytes new_size > 0
      then (Inl (assertion_failed ''new_size.in_bytes() > 0''), w)
      else if \<not> NDEBUG \<and> \<not> manager vm then (Inl (assertion_failed ''manager''), w)
      else (let root_json = [''path'' \<mapsto> String ''/'', ''pool'' \<mapsto> String (storage_pool vm),
                             ''size'' \<mapsto> String (number (in_bytes new_size)),
                             ''type'' \<mapsto> String ''disk''];
                patch_json = [''devices'' \<mapsto> Object [''root'' \<mapsto> Object root_json]]
            in case lxd_request R ''PATCH'' (url vm) (Some patch_json) None w of
                 (Inl e, w1) \<Rightarrow> (Inl e, w1)
               | (Inr reply, w1) \<Rightarrow> (Inr (), w1)))"

subsection \<open>The mount handler\<close>

text \<open>
  The fields of \<^verbatim>\<open>LXDMountHandler\<close>; \<open>target\<close> and \<open>source\<close> are those of its base class
  \<^verbatim>\<open>MountHandler\<close>, whose constructor is taken to store them.
\<close>

record LXDMountHandler =
  target :: string
  source :: string
  lxd_instance_endpoint :: string
  device_name :: string

definition category :: string where
  "category = ''lxd-mount-handler''"

definition length_of_unique_id_without_prefix :: nat where
  "length_of_unique_id_without_prefix = 25"

definition timeout_millisecond :: int where
  "timeout_millisecond = 300000"

text \<open>
  Both functions take \<^verbatim>\<open>multipass::lxd_socket_url\<close>, a constant of a header that is not
  among the sources, as the parameter \<open>lxd_socket_url\<close>.
\<close>

definition lxd_device_remove ::
  "'d remote \<Rightarrow> string \<Rightarrow> LXDMountHandler \<Rightarrow> 'd world \<Rightarrow> (failure + unit) \<times> 'd world" where
  "lxd_device_remove R lxd_socket_url h w =
     (case lxd_request R ''GET'' (lxd_instance_endpoint h) None None w of
        (Inl e, w1) \<Rightarrow> (Inl e, w1)
      | (Inr instance_info, w1) \<Rightarrow>
          (let instance_info_metadata = toObject (at instance_info ''metadata'');
               device_list = toObject (at instance_info_metadata ''devices'');
               device_list1 = device_list(device_name h := None);
               instance_info_metadata1 = instance_info_metadata(''devices'' \<mapsto> Object device_list1)
           in case lxd_request R ''PUT'' (lxd_instance_endpoint h) (Some instance_info_metadata1)
                     None w1 of
                (Inl e, w2) \<Rightarrow> (Inl e, w2)
              | (Inr json_reply, w2) \<Rightarrow>
                  (case lxd_wait R lxd_socket_url json_reply timeout_millisecond w2 of
                     (Inl e, w3) \<Rightarrow> (Inl e, w3)
                   | (Inr done, w3) \<Rightarrow> (Inr (), w3))))"

definition lxd_device_add ::
  "'d remote \<Rightarrow> string \<Rightarrow> LXDMountHandler \<Rightarrow> 'd world \<Rightarrow> (failure + unit) \<times> 'd world" where
  "lxd_device_add R lxd_socket_url h w =
     (case lxd_request R ''GET'' (lxd_instance_endpoint h) None None w of
        (Inl e, w1) \<Rightarrow> (Inl e, w1)
      | (Inr instance_info, w1) \<Rightarrow>
          (let instance_info_metadata = toObject (at instance_info ''metadata'');
               device_list = toObject (at instance_info_metadata ''devices'');
               new_device_object = [''path'' \<mapsto> String (target h), ''source'' \<mapsto> String (source h),
                                    ''type'' \<mapsto> String ''disk''];
               device_list1 = device_list(device_name h \<mapsto> Object new_device_object);
               instance_info_metadata1 = instance_info_metadata(''devices'' \<mapsto> Object device_list1)
           in case lxd_request R ''PUT'' (lxd_instance_endpoint h) (Some instance_info_metadata1)
                     None w1 of
                (Inl e, w2) \<Rightarrow> (Inl e, w2)
              | (Inr json_reply, w2) \<Rightarrow>
                  (case lxd_wait R lxd_socket_url json_reply timeout_millisecond w2 of
                     (Inl e, w3) \<Rightarrow> (Inl e, w3)
                   | (Inr done, w3) \<Rightarrow> (Inr (), w3))))"

text \<open>
  The constructor. \<^verbatim>\<open>mp::utils::make_uuid\<close> is not among the sources and is the
  parameter \<open>make_uuid\<close>. The lock on \<^verbatim>\<open>active_mutex\<close> is free in this sequential model.
  The result is the handler, or the failure that leaves no handler behind; the
  virtual machine comes back as \<^verbatim>\<open>current_state\<close> has left it.
\<close>

definition LXDMountHandler_new ::
  "'d remote \<Rightarrow> string \<Rightarrow> (string \<Rightarrow> string) \<Rightarrow> LXDVirtualMachine \<Rightarrow> string \<Rightarrow> string
    \<Rightarrow> 'd world \<Rightarrow> (failure + LXDMountHandler) \<times> LXDVirtualMachine \<times> 'd world" where
  "LXDMountHandler_new R lxd_socket_url make_uuid vm target_path source_path w =
     (let h = \<lparr>target = target_path, source = source_path,
               lxd_instance_endpoint = lxd_socket_url @ ''/instances/'' @ vm_name vm,
               device_name = ''d_'' @ take length_of_unique_id_without_prefix (make_uuid target_path)\<rparr>
      in case current_state R vm w of
           (Inl e, vm1, w1) \<Rightarrow> (Inl e, vm1, w1)
         | (Inr st, vm1, w1) \<Rightarrow>
             if st \<noteq> off \<and> st \<noteq> stopped
             then (Inl (runtime_error (''Please stop the instance '' @ vm_name vm1
                                         @ '' before mount it natively.'')), vm1, w1)
             else (let w2 = log_line info category
                              (''initializing native mount '' @ source h @ '' => '' @ target h
                                 @ '' in '' @ [CHR 0x27] @ vm_name vm1 @ [CHR 0x27]) w1
                   in case lxd_device_add R lxd_socket_url h w2 of
                        (Inl e, w3) \<Rightarrow> (Inl e, vm1, w3)
                      | (Inr u, w3) \<Rightarrow> (Inr h, vm1, w3)))"

text \<open>
  The destructor, with the name of the instance the handler belongs to. An exception
  that leaves a destructor ends the process; the model gives the failure that does so.
\<close>

definition LXDMountHandler_delete ::
  "'d remote \<Rightarrow> string \<Rightarrow> string \<Rightarrow> LXDMountHandler \<Rightarrow> 'd world \<Rightarrow> (failure + unit) \<times> 'd world" where
  "LXDMountHandler_delete R lxd_socket_url instance_name h w =
     lxd_device_remove R lxd_socket_url h
       (log_line info category
          (''Stopping native mount '' @ [CHR 0x22] @ target h @ [CHR 0x22] @ '' in instance ''
             @ [CHR 0x27] @ instance_name @ [CHR 0x27]) w)"

text \<open>
  Modelled from the spec: a daemon that does what the specification says of the
  instance endpoint and no more. It keeps a configuration for every URL; a GET gives
  the configuration as the metadata of the reply, a PUT with a body puts the body in
  its place, and waiting for the operation succeeds.
\<close>

definition config_store :: "(string \<Rightarrow> jobject) remote" where
  "config_store =
     \<lparr>answer = (\<lambda>rq cfg.
         if req_method rq = ''PUT''
         then (Inr Map.empty,
               (case req_data rq of Some b \<Rightarrow> cfg(req_url rq := b) | None \<Rightarrow> cfg))
         else (Inr [''metadata'' \<mapsto> Object (cfg (req_url rq))], cfg)),
      await = (\<lambda>base task tmo cfg. (Inr task, cfg))\<rparr>"

text \<open>The device map of the instance behind an endpoint, as the code reads it.\<close>

definition devices_at :: "(string \<Rightarrow> jobject) world \<Rightarrow> string \<Rightarrow> jobject" where
  "devices_at w endpoint = toObject (at (daemon w endpoint) ''devices'')"

subsection \<open>Concrete inputs for the examples\<close>

text \<open>
  A daemon that gives the same answer to every request, a reply to the state query
  with a given status code, and an instance and a world to start from.
\<close>

definition replying :: "failure + jobject \<Rightarrow> unit remote" where
  "replying r = \<lparr>answer = (\<lambda>rq d. (r, d)), await = (\<lambda>base task tmo d. (Inr task, d))\<rparr>"

definition state_reply :: "string \<Rightarrow> int \<Rightarrow> jobject" where
  "state_reply status_text status_code =
     [''metadata'' \<mapsto> Object [''status'' \<mapsto> String status_text, ''status_code'' \<mapsto> Number status_code]]"

definition primary :: LXDVirtualMachine where
  "primary = \<lparr>vm_name = ''primary'', name = ''primary'', state = running, port = Some 22,
              shutdown_while_starting = False, update_shutdown_status = True, manager = True,
              base_url = ''unix:/lxd/1.0'', bridge_name = ''mpbr0'',
              mac_addr = ''52:54:00:00:00:01'', storage_pool = ''default''\<rparr>"

definition quiet :: "'d \<Rightarrow> 'd world" where
  "quiet d = \<lparr>daemon = d, sent = [], logged = [], persisted = Map.empty\<rparr>"

text \<open>
  A stand-in for the address constructor in the examples: it accepts the non-empty
  strings of digits and dots and keeps them as they are.
\<close>

definition dotted :: "string \<Rightarrow> string option" where
  "dotted s = (if s \<noteq> [] \<and> set s \<subseteq> set ''0123456789.'' then Some s else None)"

definition lease :: "string \<Rightarrow> string \<Rightarrow> json" where
  "lease hw addr = Object [''hwaddr'' \<mapsto> String hw, ''address'' \<mapsto> String addr]"

text \<open>
  What the storing daemon holds for a stopped instance with a root disk: the state
  under the URL of the state query, the configuration under every other URL.
\<close>

definition stopped_primary :: "string \<Rightarrow> jobject" where
  "stopped_primary u =
     (if u = ''unix:/lxd/1.0/virtual-machines/primary/state''
      then [''status'' \<mapsto> String ''Stopped'', ''status_code'' \<mapsto> Number 102]
      else [''devices'' \<mapsto> Object [''root'' \<mapsto> String ''disk'']])"

definition home_mount :: LXDMountHandler where
  "home_mount = \<lparr>target = ''/home/user/proj'', source = ''/host/proj'',
                 lxd_instance_endpoint = ''unix:/lxd/1.0/instances/primary'',
                 device_name = ''d_0123456789abcdef''\<rparr>"

section \<open>Properties\<close>

subsection \<open>Auxiliary facts\<close>

lemma decimal_digit: "n < 10 \<Longrightarrow> decimal n = [digit n]"
  by (simp add: decimal.simps [of n])

lemma decimal_more: "10 \<le> n \<Longrightarrow> decimal n = decimal (n div 10) @ [digit n]"
  by (simp add: decimal.simps [of n])

lemma lxd_request_effect:
  "lxd_request R m u b t w = (r, w1) \<Longrightarrow>
     sent w1 = sent w @ [\<lparr>req_method = m, req_url = u, req_data = b, req_timeout = t\<rparr>]
     \<and> logged w1 = logged w \<and> persisted w1 = persisted w"
  by (auto simp: lxd_request_def Let_def split: prod.splits)

lemma lxd_request_replying:
  "lxd_request (replying r) m u b t w =
     (r, w\<lparr>sent := sent w @ [\<lparr>req_method = m, req_url = u, req_data = b, req_timeout = t\<rparr>]\<rparr>)"
  by (simp add: lxd_request_def replying_def)

subsection \<open>The status-code table\<close>

text \<open>
  C1. Whenever the state query is answered, the state that \<^verbatim>\<open>instance_state_for\<close> gives
  depends on the status code \<open>c\<close> read from the reply alone (\<open>- 1\<close> where the reply
  has no whole number there): 101, 103, 107 and 111 give running, 102 stopped, 106
  starting, 109 suspending, 110 suspended, and 104, 108 and 112 unknown, each with the
  trace line only; every other code gives unknown, and an error line is logged after
  the trace line.
\<close>

theorem instance_state_for_table:
  assumes "lxd_request R ''GET'' u None None w = (Inr reply, w1)"
    and "c = toInt (at (toObject (at reply ''metadata'')) ''status_code'') (- 1)"
    and "line = (trace, n, ''Got LXD container state: '' @ n @ '' is ''
                   @ toString (at (toObject (at reply ''metadata'')) ''status''))"
  shows "(c \<in> {101, 103, 107, 111} \<longrightarrow> fst (instance_state_for R n u w) = Inr running)
       \<and> (c = 102 \<longrightarrow> fst (instance_state_for R n u w) = Inr stopped)
       \<and> (c = 106 \<longrightarrow> fst (instance_state_for R n u w) = Inr starting)
       \<and> (c = 109 \<longrightarrow> fst (instance_state_for R n u w) = Inr suspending)
       \<and> (c = 110 \<longrightarrow> fst (instance_state_for R n u w) = Inr suspended)
       \<and> (c \<in> {104, 108, 112} \<longrightarrow> fst (instance_state_for R n u w) = Inr unknown)
       \<and> (c \<in> {101, 102, 103, 104, 106, 107, 108, 109, 110, 111, 112} \<longrightarrow>
            logged (snd (instance_state_for R n u w)) = logged w1 @ [line])
       \<and> (c \<notin> {101, 102, 103, 104, 106, 107, 108, 109, 110, 111, 112} \<longrightarrow>
            fst (instance_state_for R n u w) = Inr unknown
            \<and> logged (snd (instance_state_for R n u w)) =
                logged w1 @ [line,
                  (error, n, ''Got unexpected LXD state: ''
                     @ toString (at (toObject (at reply ''metadata'')) ''status'')
                     @ '' ('' @ number (toInt (at (toObject (at reply ''metadata'')) ''status_code'') 0)
                     @ '')'')])"
  using assms by (simp add: instance_state_for_def Let_def log_line_def)

text \<open>
  The table at two replies: code 111 (thawed) gives running, and the unlisted code 105
  is logged as unexpected.
\<close>

theorem instance_state_for_table_witness:
  "fst (instance_state_for (replying (Inr (state_reply ''Thawed'' 111))) ''primary'' ''u'' (quiet ()))
     = Inr running
   \<and> logged (snd (instance_state_for (replying (Inr (state_reply ''Paused'' 105))) ''primary'' ''u''
               (quiet ())))
     = [(trace, ''primary'', ''Got LXD container state: primary is Paused''),
        (error, ''primary'', ''Got unexpected LXD state: Paused (105)'')]"
proof -
  have thawed: "toInt (at (toObject (at (state_reply ''Thawed'' 111) ''metadata'')) ''status_code'') (- 1)
                  = 111"
    and paused: "toInt (at (toObject (at (state_reply ''Paused'' 105) ''metadata'')) ''status_code'') (- 1)
                  = 105"
    by (simp_all add: state_reply_def at_def)
  have text105: "number 105 = ''105''"
    by (simp add: number_def decimal_digit decimal_more digit_def)
  show ?thesis
    using instance_state_for_table [where u = "''u''" and w = "quiet ()" and n = "''primary''",
            OF lxd_request_replying thawed [symmetric] refl]
          instance_state_for_table [where u = "''u''" and w = "quiet ()" and n = "''primary''",
            OF lxd_request_replying paused [symmetric] refl]
    by (simp add: state_reply_def quiet_def at_def text105)
qed

lemma instance_state_for_effect:
  "instance_state_for R n u w = (r, w1) \<Longrightarrow>
     sent w1 = sent w @ [\<lparr>req_method = ''GET'', req_url = u, req_data = None, req_timeout = None\<rparr>]
     \<and> persisted w1 = persisted w"
  by (auto simp: instance_state_for_def Let_def log_line_def
           dest!: lxd_request_effect split: prod.splits sum.splits if_splits)

lemma current_state_effect:
  "current_state R vm w = (r, vm1, w1) \<Longrightarrow>
     sent w1 = sent w @ [\<lparr>req_method = ''GET'', req_url = state_url vm, req_data = None,
                           req_timeout = None\<rparr>]
     \<and> persisted w1 = persisted w \<and> vm_name vm1 = vm_name vm \<and> port vm1 = port vm"
  by (auto simp: current_state_def log_line_def
           dest!: instance_state_for_effect split: prod.splits sum.splits failure.splits if_splits)

lemma current_state_settled:
  "current_state R vm w = (Inr ps, vm1, w1) \<Longrightarrow> ps = stopped \<or> ps = suspended \<Longrightarrow>
     vm1 = vm\<lparr>state := ps\<rparr>"
  by (auto simp: current_state_def split: prod.splits sum.splits failure.splits if_splits)

text \<open>What the state query gives when the daemon answers every request with one reply.\<close>

lemma instance_state_for_replying:
  "c \<in> {101, 102, 103, 106, 107, 109, 110, 111} \<Longrightarrow>
   instance_state_for (replying (Inr (state_reply txt c))) n u w =
     (if c = 102 then Inr stopped
      else if c = 106 then Inr starting
      else if c = 109 then Inr suspending
      else if c = 110 then Inr suspended
      else Inr running,
      w\<lparr>sent := sent w @ [\<lparr>req_method = ''GET'', req_url = u, req_data = None, req_timeout = None\<rparr>],
        logged := logged w @ [(trace, n, ''Got LXD container state: '' @ n @ '' is '' @ txt)]\<rparr>)"
  by (auto simp: instance_state_for_def lxd_request_replying state_reply_def at_def Let_def
        log_line_def)

subsection \<open>Querying the state\<close>

text \<open>
  C5. When the cached state is starting or delayed_shutdown and the state query maps
  the daemon's answer to running, \<^verbatim>\<open>current_state\<close> returns the cached state and the
  object is as it was: the polled state is not stored.
\<close>

theorem current_state_debounce:
  assumes "state vm = starting \<or> state vm = delayed_shutdown"
    and "instance_state_for R (name vm) (state_url vm) w = (Inr running, w1)"
  shows "current_state R vm w = (Inr (state vm), vm, w1)"
  using assms by (auto simp: current_state_def)

text \<open>A starting instance polled while the daemon reports code 103 stays starting.\<close>

theorem current_state_debounce_witness:
  "state (primary\<lparr>state := starting\<rparr>) = starting
   \<and> fst (current_state (replying (Inr (state_reply ''Running'' 103))) (primary\<lparr>state := starting\<rparr>)
            (quiet ())) = Inr starting
   \<and> fst (snd (current_state (replying (Inr (state_reply ''Running'' 103)))
                 (primary\<lparr>state := starting\<rparr>) (quiet ()))) = primary\<lparr>state := starting\<rparr>"
proof -
  have cached: "state (primary\<lparr>state := starting\<rparr>) = starting
                  \<or> state (primary\<lparr>state := starting\<rparr>) = delayed_shutdown"
    by simp
  have polled: "instance_state_for (replying (Inr (state_reply ''Running'' 103)))
                  (name (primary\<lparr>state := starting\<rparr>)) (state_url (primary\<lparr>state := starting\<rparr>))
                  (quiet ())
                = (Inr running,
                   snd (instance_state_for (replying (Inr (state_reply ''Running'' 103)))
                          (name (primary\<lparr>state := starting\<rparr>))
                          (state_url (primary\<lparr>state := starting\<rparr>)) (quiet ())))"
    by (simp add: instance_state_for_replying)
  show ?thesis
    using current_state_debounce [OF cached polled] by simp
qed

text \<open>
  C7. When the request of the state query fails with a
  \<^verbatim>\<open>LocalSocketConnectionException\<close>, \<^verbatim>\<open>current_state\<close> does not fail: it returns unknown,
  the cached state is unknown, and the message of the exception is logged as a warning.
\<close>

theorem current_state_transport_failure:
  assumes "lxd_request R ''GET'' (state_url vm) None None w
             = (Inl (LocalSocketConnectionException what), w1)"
  shows "current_state R vm w
           = (Inr unknown, vm\<lparr>state := unknown\<rparr>, log_line warning (vm_name vm) what w1)"
  using assms by (simp add: current_state_def instance_state_for_def)

text \<open>A running instance whose daemon cannot be reached.\<close>

theorem current_state_transport_failure_witness:
  "fst (current_state (replying (Inl (LocalSocketConnectionException ''cannot connect''))) primary
          (quiet ())) = Inr unknown
   \<and> state (fst (snd (current_state (replying (Inl (LocalSocketConnectionException ''cannot connect'')))
                        primary (quiet ())))) = unknown
   \<and> logged (snd (snd (current_state (replying (Inl (LocalSocketConnectionException ''cannot connect'')))
                         primary (quiet ())))) = [(warning, ''primary'', ''cannot connect'')]"
  using current_state_transport_failure [OF lxd_request_replying, of "''cannot connect''" primary
          "quiet ()"]
  by (simp add: log_line_def quiet_def primary_def)

lemma primary_fields:
  "vm_name primary = ''primary''" "name primary = ''primary''" "state primary = running"
  "port primary = Some 22" "manager primary" "update_shutdown_status primary"
  "\<not> shutdown_while_starting primary" "storage_pool primary = ''default''"
  "url primary = ''unix:/lxd/1.0/virtual-machines/primary''"
  "state_url primary = ''unix:/lxd/1.0/virtual-machines/primary/state''"
  by (simp_all add: primary_def state_url_def url_def)

lemma current_state_stores:
  "instance_state_for R (name vm) (state_url vm) w = (Inr s, w1) \<Longrightarrow>
   s \<noteq> running \<or> (state vm \<noteq> starting \<and> state vm \<noteq> delayed_shutdown) \<Longrightarrow>
   current_state R vm w = (Inr s, vm\<lparr>state := s\<rparr>, w1)"
  by (auto simp: current_state_def)

lemma lxd_wait_replying: "lxd_wait (replying r) base task tmo w = (Inr task, w)"
  by (simp add: lxd_wait_def replying_def)

lemma request_state_replying:
  "request_state (replying (Inr x)) vm s w =
     (Inr (), w\<lparr>sent := sent w @ [\<lparr>req_method = ''PUT'', req_url = state_url vm,
                                     req_data = Some [''action'' \<mapsto> String s],
                                     req_timeout = Some 5000\<rparr>]\<rparr>)"
  by (simp add: request_state_def lxd_request_replying lxd_wait_replying)

subsection \<open>Stopping\<close>

text \<open>
  C2. When the state that \<^verbatim>\<open>stop\<close> derives afresh is stopped or suspended, \<^verbatim>\<open>stop\<close>
  returns; the one request it has issued is the state query (no request to stop); the
  state handed to the status monitor and the cached port are as before; and the cached
  state is the state just derived, which need not be the state cached before the call.
\<close>

theorem stop_ignored_when_stopped_or_suspended:
  assumes "current_state R vm w = (Inr present_state, vm1, w1)"
    and "present_state = stopped \<or> present_state = suspended"
    and "stop R vm w = (r, vm2, w2)"
  shows "r = Inr Returned
       \<and> sent w2 = sent w @ [\<lparr>req_method = ''GET'', req_url = state_url vm, req_data = None,
                                req_timeout = None\<rparr>]
       \<and> persisted w2 = persisted w
       \<and> port vm2 = port vm
       \<and> state vm2 = present_state
       \<and> vm2 = vm\<lparr>state := present_state\<rparr>"
  using assms current_state_settled [OF assms(1,2)] current_state_effect [OF assms(1)]
  by (auto simp: stop_def log_line_def)

text \<open>
  An instance cached as running whose daemon reports code 110 (frozen): \<^verbatim>\<open>stop\<close> sends
  the state query only and returns with the cached state suspended.
\<close>

theorem stop_ignored_when_stopped_or_suspended_witness:
  "fst (current_state (replying (Inr (state_reply ''Frozen'' 110))) primary (quiet ())) = Inr suspended
   \<and> fst (stop (replying (Inr (state_reply ''Frozen'' 110))) primary (quiet ())) = Inr Returned
   \<and> sent (snd (snd (stop (replying (Inr (state_reply ''Frozen'' 110))) primary (quiet ()))))
       = [\<lparr>req_method = ''GET'', req_url = ''unix:/lxd/1.0/virtual-machines/primary/state'',
           req_data = None, req_timeout = None\<rparr>]
   \<and> fst (snd (stop (replying (Inr (state_reply ''Frozen'' 110))) primary (quiet ())))
       = primary\<lparr>state := suspended\<rparr>"
proof -
  define D where "D = replying (Inr (state_reply ''Frozen'' 110))"
  define W1 where "W1 = snd (instance_state_for D (name primary) (state_url primary) (quiet ()))"
  have polled: "instance_state_for D (name primary) (state_url primary) (quiet ())
                  = (Inr suspended, W1)"
    unfolding W1_def D_def by (simp add: instance_state_for_replying)
  have derived: "current_state D primary (quiet ()) = (Inr suspended, primary\<lparr>state := suspended\<rparr>, W1)"
    using current_state_stores [OF polled] by simp
  have settled: "suspended = stopped \<or> suspended = suspended"
    by simp
  have run: "stop D primary (quiet ())
               = (fst (stop D primary (quiet ())), fst (snd (stop D primary (quiet ()))),
                  snd (snd (stop D primary (quiet ()))))"
    by simp
  show ?thesis
    using stop_ignored_when_stopped_or_suspended [OF derived settled run] derived
    unfolding D_def [symmetric] by (simp add: quiet_def primary_fields)
qed

text \<open>
  The cached state does change where the cache was out of date: an instance cached as
  running whose daemon reports code 102 is stopped for \<^verbatim>\<open>stop\<close>, and is cached as stopped
  when \<^verbatim>\<open>stop\<close> returns.
\<close>

theorem stop_updates_stale_cached_state:
  "fst (current_state (replying (Inr (state_reply ''Stopped'' 102))) primary (quiet ())) = Inr stopped
   \<and> state primary = running
   \<and> state (fst (snd (stop (replying (Inr (state_reply ''Stopped'' 102))) primary (quiet ())))) = stopped
   \<and> state (fst (snd (stop (replying (Inr (state_reply ''Stopped'' 102))) primary (quiet ()))))
       \<noteq> state primary"
proof -
  define D where "D = replying (Inr (state_reply ''Stopped'' 102))"
  define W1 where "W1 = snd (instance_state_for D (name primary) (state_url primary) (quiet ()))"
  have polled: "instance_state_for D (name primary) (state_url primary) (quiet ())
                  = (Inr stopped, W1)"
    unfolding W1_def D_def by (simp add: instance_state_for_replying)
  have derived: "current_state D primary (quiet ()) = (Inr stopped, primary\<lparr>state := stopped\<rparr>, W1)"
    using current_state_stores [OF polled] by simp
  show ?thesis
    unfolding D_def [symmetric] by (simp add: stop_def derived primary_fields)
qed

text \<open>
  C10. \<^verbatim>\<open>ssh_port\<close> is 22 for every instance, whatever it holds; it is 22 for the
  instance that \<^verbatim>\<open>stop\<close> leaves behind, however \<^verbatim>\<open>stop\<close> ends; and where \<^verbatim>\<open>stop\<close> has
  returned after going past the two checks, the cached port is empty and \<^verbatim>\<open>ssh_port\<close> is
  22 all the same.
\<close>

theorem ssh_port_always_22:
  "ssh_port vm = 22
   \<and> ssh_port (fst (snd (stop R vm w))) = 22
   \<and> (stop R vm w = (Inr Returned, vm2, w2) \<and> fst (current_state R vm w) \<noteq> Inr stopped
        \<and> fst (current_state R vm w) \<noteq> Inr suspended \<longrightarrow> port vm2 = None \<and> ssh_port vm2 = 22)"
  by (auto simp: ssh_port_def stop_def stop_after_wait_def Let_def
           split: prod.splits sum.splits if_splits)

text \<open>A running instance with port 22 cached is stopped: the port is cleared, the answer is 22.\<close>

theorem ssh_port_always_22_witness:
  "port primary = Some 22
   \<and> fst (stop (replying (Inr (state_reply ''Running'' 103))) primary (quiet ())) = Inr Returned
   \<and> port (fst (snd (stop (replying (Inr (state_reply ''Running'' 103))) primary (quiet ())))) = None
   \<and> ssh_port (fst (snd (stop (replying (Inr (state_reply ''Running'' 103))) primary (quiet ())))) = 22"
proof -
  define D where "D = replying (Inr (state_reply ''Running'' 103))"
  define W1 where "W1 = snd (instance_state_for D (name primary) (state_url primary) (quiet ()))"
  have polled: "instance_state_for D (name primary) (state_url primary) (quiet ())
                  = (Inr running, W1)"
    unfolding W1_def D_def by (simp add: instance_state_for_replying)
  have derived: "current_state D primary (quiet ()) = (Inr running, primary\<lparr>state := running\<rparr>, W1)"
    using current_state_stores [OF polled] by (simp add: primary_fields)
  have returned: "fst (stop D primary (quiet ())) = Inr Returned"
    unfolding D_def
    by (simp add: stop_def derived [unfolded D_def] request_state_replying stop_after_wait_def
          Let_def)
  then have run: "stop D primary (quiet ())
               = (Inr Returned, fst (snd (stop D primary (quiet ()))),
                  snd (snd (stop D primary (quiet ()))))"
    by (metis prod.collapse)
  show ?thesis
    using ssh_port_always_22 [of primary D "quiet ()" "fst (snd (stop D primary (quiet ())))"
            "snd (snd (stop D primary (quiet ())))"] run derived returned
    unfolding D_def [symmetric] by (simp add: primary_fields)
qed

subsection \<open>The mount handler's precondition\<close>

lemma lxd_wait_effect:
  "lxd_wait R base task tmo w = (r, w1) \<Longrightarrow>
     sent w1 = sent w \<and> logged w1 = logged w \<and> persisted w1 = persisted w"
  by (auto simp: lxd_wait_def split: prod.splits)

text \<open>
  The requests of \<^verbatim>\<open>lxd_device_add\<close>, for every daemon: the GET of the instance comes
  first; when it is answered, the PUT of the answer's metadata with the device merged
  into its device map follows and nothing else; and the call succeeds when the PUT is
  answered and the wait for it succeeds.
\<close>

lemma lxd_device_add_begins:
  "\<exists>rest. sent (snd (lxd_device_add R lxd_socket_url h w)) =
            sent w @ [\<lparr>req_method = ''GET'', req_url = lxd_instance_endpoint h, req_data = None,
                        req_timeout = None\<rparr>] @ rest"
proof (cases "lxd_request R ''GET'' (lxd_instance_endpoint h) None None w")
  case (Pair r w1)
  note got = lxd_request_effect [OF Pair]
  show ?thesis
  proof (cases r)
    case (Inl e)
    with Pair got show ?thesis
      by (simp add: lxd_device_add_def)
  next
    case (Inr instance_info)
    obtain r2 w2 where put: "lxd_request R ''PUT'' (lxd_instance_endpoint h)
        (Some ((toObject (at instance_info ''metadata''))(''devices'' \<mapsto> Object
           ((toObject (at (toObject (at instance_info ''metadata'')) ''devices''))(device_name h \<mapsto>
              Object [''path'' \<mapsto> String (target h), ''source'' \<mapsto> String (source h),
                      ''type'' \<mapsto> String ''disk''])))))
        None w1 = (r2, w2)"
      by (cases "lxd_request R ''PUT'' (lxd_instance_endpoint h)
        (Some ((toObject (at instance_info ''metadata''))(''devices'' \<mapsto> Object
           ((toObject (at (toObject (at instance_info ''metadata'')) ''devices''))(device_name h \<mapsto>
              Object [''path'' \<mapsto> String (target h), ''source'' \<mapsto> String (source h),
                      ''type'' \<mapsto> String ''disk''])))))
        None w1") blast
    note sent_put = lxd_request_effect [OF put]
    show ?thesis
    proof (cases r2)
      case (Inl e)
      with Pair Inr put got sent_put show ?thesis
        by (simp add: lxd_device_add_def Let_def)
    next
      case reply: (Inr json_reply)
      obtain r3 w3 where waited: "lxd_wait R lxd_socket_url json_reply timeout_millisecond w2 = (r3, w3)"
        by (cases "lxd_wait R lxd_socket_url json_reply timeout_millisecond w2") blast
      from Pair Inr put reply waited got sent_put lxd_wait_effect [OF waited] show ?thesis
        by (cases r3) (simp_all add: lxd_device_add_def Let_def)
    qed
  qed
qed

lemma lxd_device_add_answered:
  assumes "lxd_request R ''GET'' (lxd_instance_endpoint h) None None w = (Inr instance_info, w1)"
    and "merged = (toObject (at instance_info ''metadata''))(''devices'' \<mapsto> Object
           ((toObject (at (toObject (at instance_info ''metadata'')) ''devices''))(device_name h \<mapsto>
              Object [''path'' \<mapsto> String (target h), ''source'' \<mapsto> String (source h),
                      ''type'' \<mapsto> String ''disk''])))"
  shows "sent (snd (lxd_device_add R lxd_socket_url h w)) =
           sent w @ [\<lparr>req_method = ''GET'', req_url = lxd_instance_endpoint h, req_data = None,
                       req_timeout = None\<rparr>,
                     \<lparr>req_method = ''PUT'', req_url = lxd_instance_endpoint h,
                       req_data = Some merged, req_timeout = None\<rparr>]"
    and "lxd_request R ''PUT'' (lxd_instance_endpoint h) (Some merged) None w1 = (Inr reply, w2) \<Longrightarrow>
         lxd_wait R lxd_socket_url reply 300000 w2 = (Inr final, w3) \<Longrightarrow>
         lxd_device_add R lxd_socket_url h w = (Inr (), w3)"
proof -
  note got = lxd_request_effect [OF assms(1)]
  obtain r2 v2 where put: "lxd_request R ''PUT'' (lxd_instance_endpoint h) (Some merged) None w1
                             = (r2, v2)"
    by (cases "lxd_request R ''PUT'' (lxd_instance_endpoint h) (Some merged) None w1") blast
  note sent_put = lxd_request_effect [OF put]
  show "sent (snd (lxd_device_add R lxd_socket_url h w)) =
           sent w @ [\<lparr>req_method = ''GET'', req_url = lxd_instance_endpoint h, req_data = None,
                       req_timeout = None\<rparr>,
                     \<lparr>req_method = ''PUT'', req_url = lxd_instance_endpoint h,
                       req_data = Some merged, req_timeout = None\<rparr>]"
  proof (cases r2)
    case (Inl e)
    with assms put got sent_put show ?thesis
      by (simp add: lxd_device_add_def Let_def)
  next
    case reply: (Inr json_reply)
    obtain r3 v3 where waited: "lxd_wait R lxd_socket_url json_reply timeout_millisecond v2 = (r3, v3)"
      by (cases "lxd_wait R lxd_socket_url json_reply timeout_millisecond v2") blast
    from assms put reply waited got sent_put lxd_wait_effect [OF waited] show ?thesis
      by (cases r3) (simp_all add: lxd_device_add_def Let_def)
  qed
  show "lxd_device_add R lxd_socket_url h w = (Inr (), w3)"
    if "lxd_request R ''PUT'' (lxd_instance_endpoint h) (Some merged) None w1 = (Inr reply, w2)"
      and "lxd_wait R lxd_socket_url reply 300000 w2 = (Inr final, w3)"
    using that assms by (simp add: lxd_device_add_def Let_def timeout_millisecond_def)
qed

text \<open>
  C3. Let \<open>st\<close> be the state that the constructor of the mount handler gets from
  \<^verbatim>\<open>current_state\<close>. Where \<open>st\<close> is neither stopped nor off, the constructor fails with the
  runtime error that asks to stop the instance, and the one request issued is the state
  query: nothing is written to the device map. Where \<open>st\<close> is stopped or off, the
  constructor logs and goes on to \<^verbatim>\<open>lxd_device_add\<close>: after the state query it requests the
  configuration of the instance; when that is answered, it puts the configuration back
  with the device for the target path merged into the device map, and that is the last
  request; and when the PUT is answered and the wait for it succeeds, the constructor
  gives the handler.
\<close>

theorem mount_handler_requires_stopped_instance:
  assumes "current_state R vm w = (Inr st, vm1, w1)"
    and "h = \<lparr>target = target_path, source = source_path,
              lxd_instance_endpoint = lxd_socket_url @ ''/instances/'' @ vm_name vm,
              device_name = ''d_'' @ take 25 (make_uuid target_path)\<rparr>"
    and "query = \<lparr>req_method = ''GET'', req_url = state_url vm, req_data = None,
                   req_timeout = None\<rparr>"
    and "fetch = \<lparr>req_method = ''GET'', req_url = lxd_socket_url @ ''/instances/'' @ vm_name vm,
                   req_data = None, req_timeout = None\<rparr>"
    and "w2 = log_line info ''lxd-mount-handler''
                (''initializing native mount '' @ source_path @ '' => '' @ target_path
                   @ '' in '' @ [CHR 0x27] @ vm_name vm @ [CHR 0x27]) w1"
  shows "(st \<noteq> stopped \<and> st \<noteq> off \<longrightarrow>
            LXDMountHandler_new R lxd_socket_url make_uuid vm target_path source_path w
              = (Inl (runtime_error (''Please stop the instance '' @ vm_name vm
                                       @ '' before mount it natively.'')), vm1, w1)
            \<and> sent w1 = sent w @ [query])
       \<and> (st = stopped \<or> st = off \<longrightarrow>
            LXDMountHandler_new R lxd_socket_url make_uuid vm target_path source_path w
              = (case lxd_device_add R lxd_socket_url h w2 of
                   (Inl e, w3) \<Rightarrow> (Inl e, vm1, w3)
                 | (Inr u, w3) \<Rightarrow> (Inr h, vm1, w3))
            \<and> (\<exists>rest. sent (snd (snd (LXDMountHandler_new R lxd_socket_url make_uuid vm target_path
                                         source_path w)))
                         = sent w @ [query, fetch] @ rest)
            \<and> (\<forall>instance_info w3.
                  lxd_request R ''GET'' (lxd_socket_url @ ''/instances/'' @ vm_name vm) None None w2
                    = (Inr instance_info, w3) \<longrightarrow>
                  sent (snd (snd (LXDMountHandler_new R lxd_socket_url make_uuid vm target_path
                                    source_path w)))
                    = sent w @ [query, fetch,
                        \<lparr>req_method = ''PUT'', req_url = lxd_socket_url @ ''/instances/'' @ vm_name vm,
                          req_data = Some ((toObject (at instance_info ''metadata''))(''devices'' \<mapsto>
                            Object ((toObject (at (toObject (at instance_info ''metadata''))
                                                 ''devices''))
                              (''d_'' @ take 25 (make_uuid target_path) \<mapsto>
                                 Object [''path'' \<mapsto> String target_path,
                                         ''source'' \<mapsto> String source_path,
                                         ''type'' \<mapsto> String ''disk''])))),
                          req_timeout = None\<rparr>]
                  \<and> (\<forall>reply w4 final w5.
                        lxd_request R ''PUT'' (lxd_socket_url @ ''/instances/'' @ vm_name vm)
                          (Some ((toObject (at instance_info ''metadata''))(''devices'' \<mapsto>
                            Object ((toObject (at (toObject (at instance_info ''metadata''))
                                                 ''devices''))
                              (''d_'' @ take 25 (make_uuid target_path) \<mapsto>
                                 Object [''path'' \<mapsto> String target_path,
                                         ''source'' \<mapsto> String source_path,
                                         ''type'' \<mapsto> String ''disk''])))))
                          None w3 = (Inr reply, w4)
                        \<and> lxd_wait R lxd_socket_url reply 300000 w4 = (Inr final, w5) \<longrightarrow>
                        LXDMountHandler_new R lxd_socket_url make_uuid vm target_path source_path w
                          = (Inr h, vm1, w5))))"
proof -
  note polled = current_state_effect [OF assms(1)]
  have fields: "lxd_instance_endpoint h = lxd_socket_url @ ''/instances/'' @ vm_name vm"
    "device_name h = ''d_'' @ take 25 (make_uuid target_path)" "target h = target_path"
    "source h = source_path"
    by (simp_all add: assms(2))
  have sent2: "sent w2 = sent w @ [query]"
    using polled by (simp add: assms(3,5) log_line_def)
  have refused: "LXDMountHandler_new R lxd_socket_url make_uuid vm target_path source_path w
              = (Inl (runtime_error (''Please stop the instance '' @ vm_name vm
                                       @ '' before mount it natively.'')), vm1, w1)"
    if "st \<noteq> stopped \<and> st \<noteq> off"
    using that assms(1) polled by (simp add: LXDMountHandler_new_def Let_def)
  have accepted: "LXDMountHandler_new R lxd_socket_url make_uuid vm target_path source_path w
              = (case lxd_device_add R lxd_socket_url h w2 of
                   (Inl e, w3) \<Rightarrow> (Inl e, vm1, w3)
                 | (Inr u, w3) \<Rightarrow> (Inr h, vm1, w3))"
    if "st = stopped \<or> st = off"
    using that assms(1,2,5) polled
    by (auto simp: LXDMountHandler_new_def Let_def category_def
          length_of_unique_id_without_prefix_def)
  have same_sent: "sent (snd (snd (LXDMountHandler_new R lxd_socket_url make_uuid vm target_path
                                      source_path w)))
                     = sent (snd (lxd_device_add R lxd_socket_url h w2))"
    if "st = stopped \<or> st = off"
    unfolding accepted [OF that] by (simp split: prod.splits sum.splits)
  have begins: "\<exists>rest. sent (snd (snd (LXDMountHandler_new R lxd_socket_url make_uuid vm target_path
                                         source_path w)))
                         = sent w @ [query, fetch] @ rest"
    if "st = stopped \<or> st = off"
    using lxd_device_add_begins [of R lxd_socket_url h w2]
    unfolding same_sent [OF that] by (simp add: sent2 fields assms(4))
  have answered: "sent (snd (snd (LXDMountHandler_new R lxd_socket_url make_uuid vm target_path
                                    source_path w)))
                    = sent w @ [query, fetch,
                        \<lparr>req_method = ''PUT'', req_url = lxd_socket_url @ ''/instances/'' @ vm_name vm,
                          req_data = Some ((toObject (at instance_info ''metadata''))(''devices'' \<mapsto>
                            Object ((toObject (at (toObject (at instance_info ''metadata''))
                                                 ''devices''))
                              (''d_'' @ take 25 (make_uuid target_path) \<mapsto>
                                 Object [''path'' \<mapsto> String target_path,
                                         ''source'' \<mapsto> String source_path,
                                         ''type'' \<mapsto> String ''disk''])))),
                          req_timeout = None\<rparr>]"
    if "st = stopped \<or> st = off"
      and "lxd_request R ''GET'' (lxd_socket_url @ ''/instances/'' @ vm_name vm) None None w2
             = (Inr instance_info, w3)"
    for instance_info w3
    using lxd_device_add_answered(1) [OF that(2) [folded fields(1)] refl, of lxd_socket_url]
    unfolding same_sent [OF that(1)] by (simp add: sent2 fields assms(4))
  have made: "LXDMountHandler_new R lxd_socket_url make_uuid vm target_path source_path w
                = (Inr h, vm1, w5)"
    if "st = stopped \<or> st = off"
      and "lxd_request R ''GET'' (lxd_socket_url @ ''/instances/'' @ vm_name vm) None None w2
             = (Inr instance_info, w3)"
      and "lxd_request R ''PUT'' (lxd_socket_url @ ''/instances/'' @ vm_name vm)
                          (Some ((toObject (at instance_info ''metadata''))(''devices'' \<mapsto>
                            Object ((toObject (at (toObject (at instance_info ''metadata''))
                                                 ''devices''))
                              (''d_'' @ take 25 (make_uuid target_path) \<mapsto>
                                 Object [''path'' \<mapsto> String target_path,
                                         ''source'' \<mapsto> String source_path,
                                         ''type'' \<mapsto> String ''disk''])))))
                          None w3 = (Inr reply, w4)"
      and "lxd_wait R lxd_socket_url reply 300000 w4 = (Inr final, w5)"
    for instance_info w3 reply w4 final w5
  proof -
    have put: "lxd_request R ''PUT'' (lxd_instance_endpoint h)
                 (Some ((toObject (at instance_info ''metadata''))(''devices'' \<mapsto> Object
                   ((toObject (at (toObject (at instance_info ''metadata'')) ''devices''))(device_name h \<mapsto>
                      Object [''path'' \<mapsto> String (target h), ''source'' \<mapsto> String (source h),
                              ''type'' \<mapsto> String ''disk'']))))
                 ) None w3 = (Inr reply, w4)"
      using that(3) by (simp add: fields)
    show ?thesis
      using lxd_device_add_answered(2) [OF that(2) [folded fields(1)] refl put that(4)]
      by (simp add: accepted [OF that(1)])
  qed
  show ?thesis
    using refused accepted begins answered made polled by (simp add: assms(3))
qed

text \<open>
  Mounting \<^verbatim>\<open>/host/proj\<close> on \<^verbatim>\<open>/home/user/proj\<close>. In a running instance it fails, and the
  state query is the only request. In a stopped instance with a root disk, on the daemon
  that stores what is put, it gives the handler, and the third request puts the device
  map back with the mount beside the root disk.
\<close>

theorem mount_handler_requires_stopped_instance_witness:
  "fst (current_state (replying (Inr (state_reply ''Running'' 103))) primary (quiet ())) = Inr running
   \<and> fst (LXDMountHandler_new (replying (Inr (state_reply ''Running'' 103))) ''unix:/lxd/1.0''
            (\<lambda>p. ''0123456789abcdef'') primary ''/home/user/proj'' ''/host/proj'' (quiet ()))
       = Inl (runtime_error ''Please stop the instance primary before mount it natively.'')
   \<and> sent (snd (snd (LXDMountHandler_new (replying (Inr (state_reply ''Running'' 103))) ''unix:/lxd/1.0''
            (\<lambda>p. ''0123456789abcdef'') primary ''/home/user/proj'' ''/host/proj'' (quiet ()))))
       = [\<lparr>req_method = ''GET'', req_url = ''unix:/lxd/1.0/virtual-machines/primary/state'',
           req_data = None, req_timeout = None\<rparr>]
   \<and> fst (current_state config_store primary (quiet stopped_primary)) = Inr stopped
   \<and> fst (LXDMountHandler_new config_store ''unix:/lxd/1.0'' (\<lambda>p. ''0123456789abcdef'') primary
            ''/home/user/proj'' ''/host/proj'' (quiet stopped_primary)) = Inr home_mount
   \<and> sent (snd (snd (LXDMountHandler_new config_store ''unix:/lxd/1.0'' (\<lambda>p. ''0123456789abcdef'')
            primary ''/home/user/proj'' ''/host/proj'' (quiet stopped_primary))))
       = [\<lparr>req_method = ''GET'', req_url = ''unix:/lxd/1.0/virtual-machines/primary/state'',
           req_data = None, req_timeout = None\<rparr>,
          \<lparr>req_method = ''GET'', req_url = ''unix:/lxd/1.0/instances/primary'',
           req_data = None, req_timeout = None\<rparr>,
          \<lparr>req_method = ''PUT'', req_url = ''unix:/lxd/1.0/instances/primary'',
           req_data = Some [''devices'' \<mapsto> Object
                        [''root'' \<mapsto> String ''disk'',
                         ''d_0123456789abcdef'' \<mapsto> Object [''path'' \<mapsto> String ''/home/user/proj'',
                                                            ''source'' \<mapsto> String ''/host/proj'',
                                                            ''type'' \<mapsto> String ''disk'']]],
           req_timeout = None\<rparr>]"
proof -
  define D where "D = replying (Inr (state_reply ''Running'' 103))"
  define W1 where "W1 = snd (instance_state_for D (name primary) (state_url primary) (quiet ()))"
  have polled: "instance_state_for D (name primary) (state_url primary) (quiet ())
                  = (Inr running, W1)"
    unfolding W1_def D_def by (simp add: instance_state_for_replying)
  have derived: "current_state D primary (quiet ()) = (Inr running, primary\<lparr>state := running\<rparr>, W1)"
    using current_state_stores [OF polled] by (simp add: primary_fields)
  have refused: "fst (LXDMountHandler_new D ''unix:/lxd/1.0''
            (\<lambda>p. ''0123456789abcdef'') primary ''/home/user/proj'' ''/host/proj'' (quiet ()))
       = Inl (runtime_error ''Please stop the instance primary before mount it natively.'')
   \<and> sent (snd (snd (LXDMountHandler_new D ''unix:/lxd/1.0''
            (\<lambda>p. ''0123456789abcdef'') primary ''/home/user/proj'' ''/host/proj'' (quiet ()))))
       = [\<lparr>req_method = ''GET'', req_url = ''unix:/lxd/1.0/virtual-machines/primary/state'',
           req_data = None, req_timeout = None\<rparr>]"
    using mount_handler_requires_stopped_instance [where target_path = "''/home/user/proj''"
            and source_path = "''/host/proj''" and lxd_socket_url = "''unix:/lxd/1.0''"
            and make_uuid = "\<lambda>p. ''0123456789abcdef''", OF derived refl refl refl refl]
    by (simp add: quiet_def primary_fields)
  define V1 where "V1 = (quiet stopped_primary)
      \<lparr>sent := [\<lparr>req_method = ''GET'', req_url = ''unix:/lxd/1.0/virtual-machines/primary/state'',
                  req_data = None, req_timeout = None\<rparr>],
       logged := [(trace, ''primary'', ''Got LXD container state: primary is Stopped'')]\<rparr>"
  have polled2: "instance_state_for config_store (name primary) (state_url primary)
                   (quiet stopped_primary) = (Inr stopped, V1)"
    by (simp add: instance_state_for_def lxd_request_def config_store_def primary_fields
          stopped_primary_def quiet_def at_def log_line_def Let_def V1_def)
  have derived2: "current_state config_store primary (quiet stopped_primary)
                    = (Inr stopped, primary\<lparr>state := stopped\<rparr>, V1)"
    using current_state_stores [OF polled2] by simp
  define V2 where "V2 = log_line info ''lxd-mount-handler''
                (''initializing native mount '' @ ''/host/proj'' @ '' => '' @ ''/home/user/proj''
                   @ '' in '' @ [CHR 0x27] @ vm_name primary @ [CHR 0x27]) V1"
  define info0 :: jobject
    where "info0 = [''metadata'' \<mapsto> Object [''devices'' \<mapsto> Object [''root'' \<mapsto> String ''disk'']]]"
  have daemon2: "daemon V2 = stopped_primary"
    by (simp add: V2_def V1_def log_line_def quiet_def)
  have fetched: "lxd_request config_store ''GET'' (''unix:/lxd/1.0'' @ ''/instances/'' @ vm_name primary)
                   None None V2
                 = (Inr info0, snd (lxd_request config_store ''GET''
                      (''unix:/lxd/1.0'' @ ''/instances/'' @ vm_name primary) None None V2))"
    by (simp add: lxd_request_def config_store_def daemon2 stopped_primary_def primary_fields
          info0_def)
  have put: "lxd_request config_store ''PUT'' u b t v
               = (Inr Map.empty, snd (lxd_request config_store ''PUT'' u b t v))" for u b t v
    by (simp add: lxd_request_def config_store_def Let_def split: option.splits)
  have waited: "lxd_wait config_store base task tmo v
                  = (Inr task, snd (lxd_wait config_store base task tmo v))" for base task tmo v
    by (simp add: lxd_wait_def config_store_def)
  note accept = mount_handler_requires_stopped_instance [where target_path = "''/home/user/proj''"
            and source_path = "''/host/proj''" and lxd_socket_url = "''unix:/lxd/1.0''"
            and make_uuid = "\<lambda>p. ''0123456789abcdef''", OF derived2 refl refl refl V2_def,
            THEN conjunct2, rule_format, OF disjI1, OF refl, THEN conjunct2, THEN conjunct2,
            rule_format, OF fetched]
  have requests: "sent (snd (snd (LXDMountHandler_new config_store ''unix:/lxd/1.0''
            (\<lambda>p. ''0123456789abcdef'') primary ''/home/user/proj'' ''/host/proj''
            (quiet stopped_primary))))
       = [\<lparr>req_method = ''GET'', req_url = ''unix:/lxd/1.0/virtual-machines/primary/state'',
           req_data = None, req_timeout = None\<rparr>,
          \<lparr>req_method = ''GET'', req_url = ''unix:/lxd/1.0/instances/primary'',
           req_data = None, req_timeout = None\<rparr>,
          \<lparr>req_method = ''PUT'', req_url = ''unix:/lxd/1.0/instances/primary'',
           req_data = Some [''devices'' \<mapsto> Object
                        [''root'' \<mapsto> String ''disk'',
                         ''d_0123456789abcdef'' \<mapsto> Object [''path'' \<mapsto> String ''/home/user/proj'',
                                                            ''source'' \<mapsto> String ''/host/proj'',
                                                            ''type'' \<mapsto> String ''disk'']]],
           req_timeout = None\<rparr>]"
    using accept [THEN conjunct1] by (simp add: info0_def at_def primary_fields quiet_def)
  have given: "fst (LXDMountHandler_new config_store ''unix:/lxd/1.0'' (\<lambda>p. ''0123456789abcdef'')
            primary ''/home/user/proj'' ''/host/proj'' (quiet stopped_primary)) = Inr home_mount"
    using accept [THEN conjunct2, rule_format, OF conjI [OF put waited]]
    by (simp add: home_mount_def primary_fields)
  show ?thesis
    using refused derived derived2 requests given unfolding D_def by simp
qed

subsection \<open>Resolving the address\<close>

lemma scan_leases_skip:
  "\<forall>p\<in>set pre. toString (at (toObject p) ''hwaddr'') = mac \<longrightarrow>
       IPAddress (toString (at (toObject p) ''address'')) = None \<Longrightarrow>
   scan_leases IPAddress mac (pre @ rest) = scan_leases IPAddress mac rest"
  by (induction pre) auto

text \<open>
  C6. When the request for the leases is answered with the list \<open>leases\<close>:
  \<^verbatim>\<open>get_ip_for\<close> gives no address, and no failure, where no lease has the hardware
  address asked for; it gives the address of a lease that has the hardware address and a
  well-formed address where every lease before it with that hardware address has a
  malformed address (so malformed leases are passed over and the first well-formed match
  wins); in particular a malformed match followed by a well-formed match gives the
  address of the second.
\<close>

theorem get_ip_for_resolution:
  assumes "lxd_request R ''GET'' u None None w = (Inr reply, w1)"
    and "leases = toArray (at reply ''metadata'')"
  shows "((\<forall>l\<in>set leases. toString (at (toObject l) ''hwaddr'') \<noteq> mac) \<longrightarrow>
            get_ip_for IPAddress R mac u w = (Inr None, w1))
       \<and> (\<forall>pre l post ip.
            leases = pre @ l # post
            \<and> (\<forall>p\<in>set pre. toString (at (toObject p) ''hwaddr'') = mac \<longrightarrow>
                   IPAddress (toString (at (toObject p) ''address'')) = None)
            \<and> toString (at (toObject l) ''hwaddr'') = mac
            \<and> IPAddress (toString (at (toObject l) ''address'')) = Some ip \<longrightarrow>
            get_ip_for IPAddress R mac u w = (Inr (Some ip), w1))
       \<and> (\<forall>bad good ip.
            leases = [bad, good]
            \<and> toString (at (toObject bad) ''hwaddr'') = mac
            \<and> IPAddress (toString (at (toObject bad) ''address'')) = None
            \<and> toString (at (toObject good) ''hwaddr'') = mac
            \<and> IPAddress (toString (at (toObject good) ''address'')) = Some ip \<longrightarrow>
            get_ip_for IPAddress R mac u w = (Inr (Some ip), w1))"
proof -
  have g: "get_ip_for IPAddress R mac u w = (Inr (scan_leases IPAddress mac leases), w1)"
    using assms by (simp add: get_ip_for_def)
  have none: "scan_leases IPAddress mac leases = None"
    if "\<forall>l\<in>set leases. toString (at (toObject l) ''hwaddr'') \<noteq> mac"
    using scan_leases_skip [of leases mac IPAddress "[]"] that by simp
  have first: "scan_leases IPAddress mac (pre @ l # post) = Some ip"
    if "\<forall>p\<in>set pre. toString (at (toObject p) ''hwaddr'') = mac \<longrightarrow>
                   IPAddress (toString (at (toObject p) ''address'')) = None"
      and "toString (at (toObject l) ''hwaddr'') = mac"
      and "IPAddress (toString (at (toObject l) ''address'')) = Some ip"
    for pre l post ip
    using that by (simp add: scan_leases_skip)
  have second: "scan_leases IPAddress mac [bad, good] = Some ip"
    if "toString (at (toObject bad) ''hwaddr'') = mac"
      and "IPAddress (toString (at (toObject bad) ''address'')) = None"
      and "toString (at (toObject good) ''hwaddr'') = mac"
      and "IPAddress (toString (at (toObject good) ''address'')) = Some ip"
    for bad good ip
    using that by simp
  show ?thesis
    unfolding g using none first second by blast
qed

lemma lease_fields:
  "toString (at (toObject (lease hw addr)) ''hwaddr'') = hw"
  "toString (at (toObject (lease hw addr)) ''address'') = addr"
  by (simp_all add: lease_def at_def)

lemma dotted_examples: "dotted ''10.1.2.3'' = Some ''10.1.2.3''" "dotted ''n/a'' = None"
  by (simp_all add: dotted_def)

text \<open>
  Three leases: one of another machine, one of this machine with the address \<^verbatim>\<open>n/a\<close>, one
  of this machine with \<^verbatim>\<open>10.1.2.3\<close>; and a table with the other machine only.
\<close>

theorem get_ip_for_resolution_witness:
  "fst (get_ip_for dotted
          (replying (Inr [''metadata'' \<mapsto> Array [lease ''52:54:00:00:00:02'' ''10.1.2.9'',
                                                lease ''52:54:00:00:00:01'' ''n/a'',
                                                lease ''52:54:00:00:00:01'' ''10.1.2.3'']]))
          ''52:54:00:00:00:01'' ''leases'' (quiet ())) = Inr (Some ''10.1.2.3'')
   \<and> fst (get_ip_for dotted
          (replying (Inr [''metadata'' \<mapsto> Array [lease ''52:54:00:00:00:02'' ''10.1.2.9'']]))
          ''52:54:00:00:00:01'' ''leases'' (quiet ())) = Inr None"
proof -
  have three: "[lease ''52:54:00:00:00:02'' ''10.1.2.9'', lease ''52:54:00:00:00:01'' ''n/a'',
                lease ''52:54:00:00:00:01'' ''10.1.2.3'']
               = toArray (at [''metadata'' \<mapsto> Array [lease ''52:54:00:00:00:02'' ''10.1.2.9'',
                                                     lease ''52:54:00:00:00:01'' ''n/a'',
                                                     lease ''52:54:00:00:00:01'' ''10.1.2.3'']]
                            ''metadata'')"
    and one: "[lease ''52:54:00:00:00:02'' ''10.1.2.9'']
               = toArray (at [''metadata'' \<mapsto> Array [lease ''52:54:00:00:00:02'' ''10.1.2.9'']]
                            ''metadata'')"
    by (simp_all add: at_def)
  have found: "get_ip_for dotted
          (replying (Inr [''metadata'' \<mapsto> Array [lease ''52:54:00:00:00:02'' ''10.1.2.9'',
                                                lease ''52:54:00:00:00:01'' ''n/a'',
                                                lease ''52:54:00:00:00:01'' ''10.1.2.3'']]))
          ''52:54:00:00:00:01'' ''leases'' (quiet ())
        = (Inr (Some ''10.1.2.3''),
           (quiet ())\<lparr>sent := sent (quiet ()) @ [\<lparr>req_method = ''GET'', req_url = ''leases'',
                                                  req_data = None, req_timeout = None\<rparr>]\<rparr>)"
    using get_ip_for_resolution [where u = "''leases''" and w = "quiet ()"
            and mac = "''52:54:00:00:00:01''" and IPAddress = dotted,
            OF lxd_request_replying three,
            THEN conjunct2, THEN conjunct1, rule_format,
            of "[lease ''52:54:00:00:00:02'' ''10.1.2.9'', lease ''52:54:00:00:00:01'' ''n/a'']"
               "lease ''52:54:00:00:00:01'' ''10.1.2.3''" "[]" "''10.1.2.3''"]
    by (simp add: lease_fields dotted_examples)
  have absent: "get_ip_for dotted
          (replying (Inr [''metadata'' \<mapsto> Array [lease ''52:54:00:00:00:02'' ''10.1.2.9'']]))
          ''52:54:00:00:00:01'' ''leases'' (quiet ())
        = (Inr None,
           (quiet ())\<lparr>sent := sent (quiet ()) @ [\<lparr>req_method = ''GET'', req_url = ''leases'',
                                                  req_data = None, req_timeout = None\<rparr>]\<rparr>)"
    using get_ip_for_resolution [where u = "''leases''" and w = "quiet ()"
            and mac = "''52:54:00:00:00:01''" and IPAddress = dotted,
            OF lxd_request_replying one, THEN conjunct1]
    by (simp add: lease_fields)
  show ?thesis
    by (simp add: found absent)
qed

subsection \<open>Resizing\<close>

text \<open>
  C9. In a build with the assertions (without \<^verbatim>\<open>NDEBUG\<close>), \<^verbatim>\<open>update_cpus\<close>,
  \<^verbatim>\<open>resize_memory\<close> and \<^verbatim>\<open>resize_disk\<close> end in the failed assertion for an argument that is
  not positive, and the world is untouched: no request is issued. In every build, a
  positive argument and a manager give exactly the PATCH request, and the call succeeds
  whenever the daemon answers it. In a build with \<^verbatim>\<open>NDEBUG\<close> nothing is checked: with a
  manager the PATCH request is issued for every argument, positive or not.
\<close>

theorem resize_preconditions:
  assumes "cpu_patch = \<lparr>req_method = ''PATCH'', req_url = url vm,
                        req_data = Some [''config'' \<mapsto>
                                     Object [''limits.cpu'' \<mapsto> String (number num_cores)]],
                        req_timeout = None\<rparr>"
    and "memory_patch = \<lparr>req_method = ''PATCH'', req_url = url vm,
                           req_data = Some [''config'' \<mapsto>
                                        Object [''limits.memory'' \<mapsto>
                                                  String (number (in_bytes new_size))]],
                           req_timeout = None\<rparr>"
    and "disk_patch = \<lparr>req_method = ''PATCH'', req_url = url vm,
                         req_data = Some [''devices'' \<mapsto> Object [''root'' \<mapsto> Object
                                      [''path'' \<mapsto> String ''/'', ''pool'' \<mapsto> String (storage_pool vm),
                                       ''size'' \<mapsto> String (number (in_bytes new_size)),
                                       ''type'' \<mapsto> String ''disk'']]],
                         req_timeout = None\<rparr>"
  shows "(\<not> NDEBUG \<and> num_cores \<le> 0 \<longrightarrow>
            update_cpus NDEBUG R vm num_cores w = (Inl (assertion_failed ''num_cores > 0''), w))
       \<and> (\<not> NDEBUG \<and> in_bytes new_size \<le> 0 \<longrightarrow>
            resize_memory NDEBUG R vm new_size w
              = (Inl (assertion_failed ''new_size.in_bytes() > 0''), w)
            \<and> resize_disk NDEBUG R vm new_size w
              = (Inl (assertion_failed ''new_size.in_bytes() > 0''), w))
       \<and> ((0 < num_cores \<or> NDEBUG) \<and> manager vm \<longrightarrow>
            sent (snd (update_cpus NDEBUG R vm num_cores w)) = sent w @ [cpu_patch]
            \<and> (\<forall>reply d. answer R cpu_patch (daemon w) = (Inr reply, d) \<longrightarrow>
                  fst (update_cpus NDEBUG R vm num_cores w) = Inr ()))
       \<and> ((0 < in_bytes new_size \<or> NDEBUG) \<and> manager vm \<longrightarrow>
            sent (snd (resize_memory NDEBUG R vm new_size w)) = sent w @ [memory_patch]
            \<and> (\<forall>reply d. answer R memory_patch (daemon w) = (Inr reply, d) \<longrightarrow>
                  fst (resize_memory NDEBUG R vm new_size w) = Inr ())
            \<and> sent (snd (resize_disk NDEBUG R vm new_size w)) = sent w @ [disk_patch]
            \<and> (\<forall>reply d. answer R disk_patch (daemon w) = (Inr reply, d) \<longrightarrow>
                  fst (resize_disk NDEBUG R vm new_size w) = Inr ()))"
  unfolding assms
  by (auto simp: update_cpus_def resize_memory_def resize_disk_def lxd_request_def Let_def
           split: prod.splits sum.splits)

lemma number_examples:
  "number 0 = ''0''" "number 2 = ''2''" "number 1073741824 = ''1073741824''"
  by (simp_all add: number_def decimal_digit decimal_more digit_def)

lemma replying_answer: "answer (replying r) rq d = (r, d)"
  by (simp add: replying_def)

text \<open>
  With the assertions, two cores and one gibibyte are asked of the daemon; no cores and
  no bytes are not.
\<close>

theorem resize_preconditions_witness:
  "update_cpus False (replying (Inr Map.empty)) primary 0 (quiet ())
     = (Inl (assertion_failed ''num_cores > 0''), quiet ())
   \<and> resize_memory False (replying (Inr Map.empty)) primary \<lparr>in_bytes = 0\<rparr> (quiet ())
     = (Inl (assertion_failed ''new_size.in_bytes() > 0''), quiet ())
   \<and> resize_disk False (replying (Inr Map.empty)) primary \<lparr>in_bytes = 0\<rparr> (quiet ())
     = (Inl (assertion_failed ''new_size.in_bytes() > 0''), quiet ())
   \<and> fst (update_cpus False (replying (Inr Map.empty)) primary 2 (quiet ())) = Inr ()
   \<and> sent (snd (update_cpus False (replying (Inr Map.empty)) primary 2 (quiet ())))
     = [\<lparr>req_method = ''PATCH'', req_url = ''unix:/lxd/1.0/virtual-machines/primary'',
         req_data = Some [''config'' \<mapsto> Object [''limits.cpu'' \<mapsto> String ''2'']],
         req_timeout = None\<rparr>]
   \<and> fst (resize_memory False (replying (Inr Map.empty)) primary \<lparr>in_bytes = 1073741824\<rparr>
            (quiet ())) = Inr ()
   \<and> sent (snd (resize_memory False (replying (Inr Map.empty)) primary \<lparr>in_bytes = 1073741824\<rparr>
                  (quiet ())))
     = [\<lparr>req_method = ''PATCH'', req_url = ''unix:/lxd/1.0/virtual-machines/primary'',
         req_data = Some [''config'' \<mapsto> Object [''limits.memory'' \<mapsto> String ''1073741824'']],
         req_timeout = None\<rparr>]
   \<and> fst (resize_disk False (replying (Inr Map.empty)) primary \<lparr>in_bytes = 1073741824\<rparr>
            (quiet ())) = Inr ()
   \<and> sent (snd (resize_disk False (replying (Inr Map.empty)) primary \<lparr>in_bytes = 1073741824\<rparr>
                  (quiet ())))
     = [\<lparr>req_method = ''PATCH'', req_url = ''unix:/lxd/1.0/virtual-machines/primary'',
         req_data = Some [''devices'' \<mapsto> Object [''root'' \<mapsto> Object
                      [''path'' \<mapsto> String ''/'', ''pool'' \<mapsto> String ''default'',
                       ''size'' \<mapsto> String ''1073741824'', ''type'' \<mapsto> String ''disk'']]],
         req_timeout = None\<rparr>]"
  using resize_preconditions [where NDEBUG = False and num_cores = 0
          and new_size = "\<lparr>in_bytes = 0\<rparr>"
          and R = "replying (Inr Map.empty)" and vm = primary and w = "quiet ()",
          OF refl refl refl]
        resize_preconditions [where NDEBUG = False and num_cores = 2
          and new_size = "\<lparr>in_bytes = 1073741824\<rparr>"
          and R = "replying (Inr Map.empty)" and vm = primary and w = "quiet ()",
          OF refl refl refl]
  by (simp add: replying_answer number_examples primary_fields quiet_def)

text \<open>
  Without the assertions the argument is not checked: no cores and no bytes are asked
  of the daemon as they are, and the calls succeed.
\<close>

theorem resize_unchecked_without_assertions:
  "fst (update_cpus True (replying (Inr Map.empty)) primary 0 (quiet ())) = Inr ()
   \<and> sent (snd (update_cpus True (replying (Inr Map.empty)) primary 0 (quiet ())))
     = [\<lparr>req_method = ''PATCH'', req_url = ''unix:/lxd/1.0/virtual-machines/primary'',
         req_data = Some [''config'' \<mapsto> Object [''limits.cpu'' \<mapsto> String ''0'']],
         req_timeout = None\<rparr>]
   \<and> fst (resize_memory True (replying (Inr Map.empty)) primary \<lparr>in_bytes = 0\<rparr> (quiet ())) = Inr ()
   \<and> sent (snd (resize_memory True (replying (Inr Map.empty)) primary \<lparr>in_bytes = 0\<rparr> (quiet ())))
     = [\<lparr>req_method = ''PATCH'', req_url = ''unix:/lxd/1.0/virtual-machines/primary'',
         req_data = Some [''config'' \<mapsto> Object [''limits.memory'' \<mapsto> String ''0'']],
         req_timeout = None\<rparr>]
   \<and> fst (resize_disk True (replying (Inr Map.empty)) primary \<lparr>in_bytes = 0\<rparr> (quiet ())) = Inr ()
   \<and> sent (snd (resize_disk True (replying (Inr Map.empty)) primary \<lparr>in_bytes = 0\<rparr> (quiet ())))
     = [\<lparr>req_method = ''PATCH'', req_url = ''unix:/lxd/1.0/virtual-machines/primary'',
         req_data = Some [''devices'' \<mapsto> Object [''root'' \<mapsto> Object
                      [''path'' \<mapsto> String ''/'', ''pool'' \<mapsto> String ''default'',
                       ''size'' \<mapsto> String ''0'', ''type'' \<mapsto> String ''disk'']]],
         req_timeout = None\<rparr>]"
  by (simp add: update_cpus_def resize_memory_def resize_disk_def lxd_request_replying
        number_examples primary_fields quiet_def)

subsection \<open>Attaching and detaching a device\<close>

text \<open>What the two functions do to the daemon that stores configurations.\<close>

lemma config_store_add:
  "lxd_device_add config_store lxd_socket_url h w =
     (Inr (),
      w\<lparr>daemon := (daemon w)(lxd_instance_endpoint h :=
                      (daemon w (lxd_instance_endpoint h))(''devices'' \<mapsto>
                         Object ((devices_at w (lxd_instance_endpoint h))(device_name h \<mapsto>
                           Object [''path'' \<mapsto> String (target h), ''source'' \<mapsto> String (source h),
                                   ''type'' \<mapsto> String ''disk''])))),
         sent := sent w @
           [\<lparr>req_method = ''GET'', req_url = lxd_instance_endpoint h, req_data = None,
              req_timeout = None\<rparr>,
            \<lparr>req_method = ''PUT'', req_url = lxd_instance_endpoint h,
              req_data = Some ((daemon w (lxd_instance_endpoint h))(''devices'' \<mapsto>
                         Object ((devices_at w (lxd_instance_endpoint h))(device_name h \<mapsto>
                           Object [''path'' \<mapsto> String (target h), ''source'' \<mapsto> String (source h),
                                   ''type'' \<mapsto> String ''disk''])))),
              req_timeout = None\<rparr>]\<rparr>)"
  by (simp add: lxd_device_add_def lxd_request_def lxd_wait_def config_store_def Let_def at_def
        devices_at_def)

lemma config_store_remove:
  "lxd_device_remove config_store lxd_socket_url h w =
     (Inr (),
      w\<lparr>daemon := (daemon w)(lxd_instance_endpoint h :=
                      (daemon w (lxd_instance_endpoint h))(''devices'' \<mapsto>
                         Object ((devices_at w (lxd_instance_endpoint h))(device_name h := None)))),
         sent := sent w @
           [\<lparr>req_method = ''GET'', req_url = lxd_instance_endpoint h, req_data = None,
              req_timeout = None\<rparr>,
            \<lparr>req_method = ''PUT'', req_url = lxd_instance_endpoint h,
              req_data = Some ((daemon w (lxd_instance_endpoint h))(''devices'' \<mapsto>
                         Object ((devices_at w (lxd_instance_endpoint h))(device_name h := None)))),
              req_timeout = None\<rparr>]\<rparr>)"
  by (simp add: lxd_device_remove_def lxd_request_def lxd_wait_def config_store_def Let_def at_def
        devices_at_def)

text \<open>
  C4. On a daemon that stores what is put, whatever the configuration of the instance
  was: \<^verbatim>\<open>lxd_device_add\<close> and then \<^verbatim>\<open>lxd_device_remove\<close> of the same handler both succeed;
  after the first the device map is the old one with the handler's device under its
  name; after the second it is the old one without that name; every entry under another
  name is as it was after each step, and so are the other keys of the configuration and
  the other instances. \<^verbatim>\<open>lxd_device_remove\<close> where the name is absent succeeds and leaves
  the device map as it was.
\<close>

theorem attach_detach_round_trip:
  assumes "lxd_device_add config_store lxd_socket_url h w = (r1, w1)"
    and "lxd_device_remove config_store lxd_socket_url h w1 = (r2, w2)"
    and "lxd_device_remove config_store lxd_socket_url h w = (r3, w3)"
    and "endpoint = lxd_instance_endpoint h"
  shows "r1 = Inr () \<and> r2 = Inr ()
       \<and> devices_at w1 endpoint =
           (devices_at w endpoint)(device_name h \<mapsto>
              Object [''path'' \<mapsto> String (target h), ''source'' \<mapsto> String (source h),
                      ''type'' \<mapsto> String ''disk''])
       \<and> devices_at w2 endpoint = (devices_at w endpoint)(device_name h := None)
       \<and> devices_at w2 endpoint (device_name h) = None
       \<and> (\<forall>k. k \<noteq> device_name h \<longrightarrow> devices_at w1 endpoint k = devices_at w endpoint k
                                       \<and> devices_at w2 endpoint k = devices_at w endpoint k)
       \<and> (\<forall>key. key \<noteq> ''devices'' \<longrightarrow> daemon w2 endpoint key = daemon w endpoint key)
       \<and> (\<forall>other. other \<noteq> endpoint \<longrightarrow> daemon w2 other = daemon w other)
       \<and> (devices_at w endpoint (device_name h) = None \<longrightarrow>
            r3 = Inr () \<and> devices_at w3 endpoint = devices_at w endpoint)"
proof -
  from assms(1) have w1: "r1 = Inr ()" "daemon w1 = (daemon w)(endpoint :=
        (daemon w endpoint)(''devices'' \<mapsto>
           Object ((devices_at w endpoint)(device_name h \<mapsto>
              Object [''path'' \<mapsto> String (target h), ''source'' \<mapsto> String (source h),
                      ''type'' \<mapsto> String ''disk''])))) "
    unfolding config_store_add assms(4) by auto
  from assms(2) have w2: "r2 = Inr ()" "daemon w2 = (daemon w1)(endpoint :=
        (daemon w1 endpoint)(''devices'' \<mapsto>
           Object ((devices_at w1 endpoint)(device_name h := None))))"
    unfolding config_store_remove assms(4) by auto
  from assms(3) have w3: "r3 = Inr ()" "daemon w3 = (daemon w)(endpoint :=
        (daemon w endpoint)(''devices'' \<mapsto>
           Object ((devices_at w endpoint)(device_name h := None))))"
    unfolding config_store_remove assms(4) by auto
  have d1: "devices_at w1 endpoint =
           (devices_at w endpoint)(device_name h \<mapsto>
              Object [''path'' \<mapsto> String (target h), ''source'' \<mapsto> String (source h),
                      ''type'' \<mapsto> String ''disk''])"
    by (simp add: devices_at_def w1(2) at_def)
  have d2: "devices_at w2 endpoint = (devices_at w endpoint)(device_name h := None)"
    by (simp add: devices_at_def [of w2] w2(2) at_def d1)
  have d3: "devices_at w3 endpoint = devices_at w endpoint"
    if "devices_at w endpoint (device_name h) = None"
    using that by (simp add: devices_at_def [of w3] w3(2) at_def fun_upd_idem)
  show ?thesis
    using w1(1) w2(1) w3(1) d1 d2 d3 by (simp add: w2(2) w1(2))
qed

text \<open>
  An instance with a root disk: the mount of the example is added beside the root disk
  and removed again, and removing it from the instance that never had it changes
  nothing.
\<close>

theorem attach_detach_round_trip_witness:
  "fst (lxd_device_add config_store ''unix:/lxd/1.0'' home_mount
          (quiet (\<lambda>u. [''devices'' \<mapsto> Object [''root'' \<mapsto> String ''disk'']]))) = Inr ()
   \<and> devices_at (snd (lxd_device_add config_store ''unix:/lxd/1.0'' home_mount
          (quiet (\<lambda>u. [''devices'' \<mapsto> Object [''root'' \<mapsto> String ''disk'']]))))
        ''unix:/lxd/1.0/instances/primary''
       = [''root'' \<mapsto> String ''disk'',
          ''d_0123456789abcdef'' \<mapsto> Object [''path'' \<mapsto> String ''/home/user/proj'',
                                             ''source'' \<mapsto> String ''/host/proj'',
                                             ''type'' \<mapsto> String ''disk'']]
   \<and> devices_at (snd (lxd_device_remove config_store ''unix:/lxd/1.0'' home_mount
          (snd (lxd_device_add config_store ''unix:/lxd/1.0'' home_mount
             (quiet (\<lambda>u. [''devices'' \<mapsto> Object [''root'' \<mapsto> String ''disk'']]))))))
        ''unix:/lxd/1.0/instances/primary''
       = [''root'' \<mapsto> String ''disk'']
   \<and> devices_at (snd (lxd_device_remove config_store ''unix:/lxd/1.0'' home_mount
          (quiet (\<lambda>u. [''devices'' \<mapsto> Object [''root'' \<mapsto> String ''disk'']]))))
        ''unix:/lxd/1.0/instances/primary''
       = [''root'' \<mapsto> String ''disk'']"
proof -
  define W where "W = quiet (\<lambda>u::string. [''devices'' \<mapsto> Object [''root'' \<mapsto> String ''disk'']])"
  have before: "devices_at W ''unix:/lxd/1.0/instances/primary'' = [''root'' \<mapsto> String ''disk'']"
    by (simp add: W_def devices_at_def quiet_def at_def)
  have handler: "lxd_instance_endpoint home_mount = ''unix:/lxd/1.0/instances/primary''"
    "device_name home_mount = ''d_0123456789abcdef''" "target home_mount = ''/home/user/proj''"
    "source home_mount = ''/host/proj''"
    by (simp_all add: home_mount_def)
  have fresh: "[''root'' \<mapsto> String ''disk''] ''d_0123456789abcdef'' = None"
    by simp
  have gone: "[''root'' \<mapsto> String ''disk''](''d_0123456789abcdef'' := None)
                = [''root'' \<mapsto> String ''disk'']"
    by (rule ext) simp
  show ?thesis
    using attach_detach_round_trip [where lxd_socket_url = "''unix:/lxd/1.0''" and w = W
            and h = home_mount, OF surjective_pairing surjective_pairing surjective_pairing
            handler(1) [symmetric]]
    unfolding W_def [symmetric] by (simp add: before handler fresh gone)
qed

subsection \<open>Stopping an instance that is starting\<close>

lemma current_state_keeps_flag:
  "current_state R vm w = (r, vm1, w1) \<Longrightarrow> shutdown_while_starting vm1 = shutdown_while_starting vm"
  by (auto simp: current_state_def split: prod.splits sum.splits failure.splits if_splits)

text \<open>
  What this sequential model says of \<^verbatim>\<open>stop\<close> on an instance found starting. Where the
  call returns, the flag \<^verbatim>\<open>shutdown_while_starting\<close> was set when the wait was reached,
  the cached state is stopped and the port is empty. Where the flag is not set, the call
  is parked after the request to stop, with the cached state stopped and the port as it
  was. What runs after the wake-up clears the port and leaves the cached state as the
  wake-up finds it. What other threads do to the object while the call is parked is not
  part of the model.
\<close>

lemma stop_while_starting:
  assumes "current_state R vm w = (Inr starting, vm1, w1)"
  shows "(stop R vm w = (Inr Returned, vm2, w2) \<longrightarrow>
            shutdown_while_starting vm \<and> state vm2 = stopped \<and> port vm2 = None)
       \<and> (request_state R vm1 ''stop'' w1 = (Inr (), w2) \<and> \<not> shutdown_while_starting vm \<longrightarrow>
            stop R vm w = (Inr Waiting, vm1\<lparr>state := stopped\<rparr>, w2))
       \<and> fst (stop_after_wait vm3 w3) = Inr Returned
       \<and> port (fst (snd (stop_after_wait vm3 w3))) = None
       \<and> state (fst (snd (stop_after_wait vm3 w3))) = state vm3"
  using assms current_state_keeps_flag [OF assms]
  by (auto simp: stop_def stop_after_wait_def Let_def split: prod.splits sum.splits if_splits)

end
